theory Spec2Isabelle
  imports Complex_Main "HOL-Library.AList"
begin

section \<open>JavaScript numbers\<close>

text \<open>
  A JavaScript number is a finite value, one of the two infinities, or NaN. The finite
  values are idealised as reals: rounding, overflow to infinity and the sign of zero are
  not modelled (zero is the positive zero). What is modelled is where the arithmetic leaves
  the finite numbers: division by zero, the undefined forms \<open>0/0\<close>, \<open>\<infinity> - \<infinity>\<close>, \<open>0 * \<infinity>\<close>, the
  square root of a negative number, and comparisons with NaN, which are false.
\<close>

datatype jsnum = Fin real | PInf | NInf | NaN

fun jneg :: "jsnum \<Rightarrow> jsnum" where
  "jneg (Fin a) = Fin (- a)"
| "jneg PInf = NInf"
| "jneg NInf = PInf"
| "jneg NaN = NaN"

fun jadd :: "jsnum \<Rightarrow> jsnum \<Rightarrow> jsnum" where
  "jadd (Fin a) (Fin b) = Fin (a + b)"
| "jadd NaN _ = NaN"
| "jadd _ NaN = NaN"
| "jadd PInf NInf = NaN"
| "jadd NInf PInf = NaN"
| "jadd PInf _ = PInf"
| "jadd _ PInf = PInf"
| "jadd NInf _ = NInf"
| "jadd _ NInf = NInf"

definition jsub :: "jsnum \<Rightarrow> jsnum \<Rightarrow> jsnum" where
  "jsub a b = jadd a (jneg b)"

text \<open>An infinity times or divided by a finite factor keeps or flips its sign.\<close>

definition inf_signed :: "jsnum \<Rightarrow> real \<Rightarrow> jsnum" where
  "inf_signed x b = (if 0 < b then x else jneg x)"

fun jmul :: "jsnum \<Rightarrow> jsnum \<Rightarrow> jsnum" where
  "jmul (Fin a) (Fin b) = Fin (a * b)"
| "jmul NaN _ = NaN"
| "jmul _ NaN = NaN"
| "jmul (Fin a) x = (if a = 0 then NaN else inf_signed x a)"
| "jmul x (Fin b) = (if b = 0 then NaN else inf_signed x b)"
| "jmul PInf PInf = PInf"
| "jmul NInf NInf = PInf"
| "jmul PInf NInf = NInf"
| "jmul NInf PInf = NInf"

fun jdiv :: "jsnum \<Rightarrow> jsnum \<Rightarrow> jsnum" where
  "jdiv (Fin a) (Fin b) =
     (if b \<noteq> 0 then Fin (a / b)
      else if a = 0 then NaN
      else if 0 < a then PInf else NInf)"
| "jdiv NaN _ = NaN"
| "jdiv _ NaN = NaN"
| "jdiv (Fin a) _ = Fin 0"
| "jdiv x (Fin b) = (if 0 \<le> b then x else jneg x)"
| "jdiv _ _ = NaN"

fun jsqrt :: "jsnum \<Rightarrow> jsnum" where
  "jsqrt (Fin a) = (if a < 0 then NaN else Fin (sqrt a))"
| "jsqrt PInf = PInf"
| "jsqrt NInf = NaN"
| "jsqrt NaN = NaN"

fun jlt :: "jsnum \<Rightarrow> jsnum \<Rightarrow> bool" where
  "jlt (Fin a) (Fin b) = (a < b)"
| "jlt NaN _ = False"
| "jlt _ NaN = False"
| "jlt PInf _ = False"
| "jlt _ NInf = False"
| "jlt _ _ = True"

text \<open>The operator \<open>===\<close> on numbers: NaN is not equal to itself.\<close>

definition strict_eq :: "jsnum \<Rightarrow> jsnum \<Rightarrow> bool" where
  "strict_eq a b = (a \<noteq> NaN \<and> a = b)"

fun is_fin :: "jsnum \<Rightarrow> bool" where
  "is_fin (Fin _) = True"
| "is_fin _ = False"


section \<open>The vector module (dist/n-dim-vector.js)\<close>

text \<open>A vector is the array of its components; \<open>NDimVector\<close> wraps such an array.\<close>

type_synonym vec = "jsnum list"

text \<open>
  Modelled from the spec: \<open>zipWith\<close> of \<open>fn/zip.js\<close>, which is not among the sources.
  It combines the components of two vectors pairwise. The operands of a binary vector
  operation have the same dimensionality (the simulation's vectors are all
  \<open>NDimVector<2>\<close>); on such operands the result is the componentwise combination.
\<close>

definition zipWith :: "('a \<Rightarrow> 'b \<Rightarrow> 'c) \<Rightarrow> 'a list \<Rightarrow> 'b list \<Rightarrow> 'c list" where
  "zipWith f xs ys = map2 f xs ys"

definition add :: "vec \<Rightarrow> vec \<Rightarrow> vec" where
  "add augend addend = zipWith (\<lambda>a b. jadd a b) augend addend"

definition sub :: "vec \<Rightarrow> vec \<Rightarrow> vec" where
  "sub minuend subtrahend = zipWith (\<lambda>a b. jsub a b) minuend subtrahend"

definition mul :: "vec \<Rightarrow> jsnum \<Rightarrow> vec" where
  "mul vector scalar = map (\<lambda>component. jmul component scalar) vector"

text \<open>
  \<open>div\<close> (here \<open>div_vec\<close>, as \<open>div\<close> is an operator of HOL) writes to the error console
  when the divisor is zero and then divides all the same. The result is the pair of the
  lines written to the console and the value returned.
\<close>

definition div_vec :: "vec \<Rightarrow> jsnum \<Rightarrow> string list \<times> vec" where
  "div_vec vector scalar =
     ((if strict_eq scalar (Fin 0) then [''Div by 0''] else []),
      map (\<lambda>component. jdiv component scalar) vector)"

definition magnitudeSquared :: "vec \<Rightarrow> jsnum" where
  "magnitudeSquared vector = foldl (\<lambda>acc val. jadd acc (jmul val val)) (Fin 0) vector"

definition magnitude :: "vec \<Rightarrow> jsnum" where
  "magnitude vector = jsqrt (magnitudeSquared vector)"

text \<open>The methods of the class \<open>NDimVector\<close>: each unwraps the components, calls the
  module function and wraps the result. The console is not part of the value.\<close>

definition NDimVector_zero :: "nat \<Rightarrow> vec" where
  "NDimVector_zero n = replicate n (Fin 0)"

definition NDimVector_add :: "vec \<Rightarrow> vec \<Rightarrow> vec" where
  "NDimVector_add this other = add this other"

definition NDimVector_sub :: "vec \<Rightarrow> vec \<Rightarrow> vec" where
  "NDimVector_sub this other = sub this other"

definition NDimVector_mul :: "vec \<Rightarrow> jsnum \<Rightarrow> vec" where
  "NDimVector_mul this scalar = mul this scalar"

definition NDimVector_div :: "vec \<Rightarrow> jsnum \<Rightarrow> vec" where
  "NDimVector_div this scalar = snd (div_vec this scalar)"

definition NDimVector_magnitude :: "vec \<Rightarrow> jsnum" where
  "NDimVector_magnitude this = magnitude this"

definition NDimVector_magnitudeSquared :: "vec \<Rightarrow> jsnum" where
  "NDimVector_magnitudeSquared this = magnitudeSquared this"

text \<open>
  The contract the specification words for \<open>div\<close>: division by the scalar zero fails
  with \<open>DivideByZero\<close>.
\<close>

datatype contract_error = DivideByZero | DuplicateId

definition div_spec :: "vec \<Rightarrow> jsnum \<Rightarrow> contract_error + vec" where
  "div_spec vector scalar =
     (if strict_eq scalar (Fin 0) then Inl DivideByZero
      else Inr (map (\<lambda>component. jdiv component scalar) vector))"


section \<open>Bodies\<close>

text \<open>
  The fields of a \<open>MassiveBody\<close> that the simulation reads and writes: \<open>id\<close>, \<open>pos\<close>,
  \<open>vel\<close>, \<open>acc\<close>, \<open>m\<close>, \<open>r\<close> and \<open>isStatic\<close>. The selectors carry the prefix \<open>b_\<close>,
  since \<open>id\<close> and \<open>acc\<close> are constants of HOL.
\<close>

record body =
  b_id :: nat
  b_pos :: vec
  b_vel :: vec
  b_acc :: vec
  b_m :: jsnum
  b_r :: jsnum
  b_isStatic :: bool

text \<open>
  The class \<open>MassiveBody\<close> lives in \<open>kinetic-body.js\<close>, which is not among the sources.
  Its two constants are parameters here: the mass bound \<open>MAX_MASS\<close> and the function
  that derives the radius from the mass.
\<close>

record MassiveBody_class =
  max_mass :: jsnum
  radius_of :: "jsnum \<Rightarrow> jsnum"

text \<open>
  Modelled from the spec: the constructor of \<open>MassiveBody\<close> (\<open>kinetic-body.js\<close> is
  not among the sources). The id is the next value of the process-wide counter, the mass
  is clamped to \<open>MAX_MASS\<close>, the radius is derived from the mass, and the acceleration
  starts at zero.
\<close>

definition MassiveBody_new ::
  "MassiveBody_class \<Rightarrow> nat \<Rightarrow> nat \<Rightarrow> jsnum \<Rightarrow> vec \<Rightarrow> vec \<Rightarrow> bool \<Rightarrow> body" where
  "MassiveBody_new cls next_id dims mass p v static =
     (let clamped = (if jlt (max_mass cls) mass then max_mass cls else mass)
      in \<lparr>b_id = next_id, b_pos = p, b_vel = v, b_acc = NDimVector_zero dims,
          b_m = clamped, b_r = radius_of cls clamped, b_isStatic = static\<rparr>)"

text \<open>
  Modelled from the spec: \<open>SimulationBody.eq\<close> (\<open>kinetic-body.js\<close> is not among the
  sources). A body is identified by its process-unique id.
\<close>

definition body_eq :: "body \<Rightarrow> body \<Rightarrow> bool" where
  "body_eq b other = (b_id b = b_id other)"

text \<open>
  \<open>Array.includes\<close> on an array of bodies compares object identity. Every body object has
  an id of its own, so two references are the same object exactly when the ids agree.
\<close>

definition includes_body :: "body list \<Rightarrow> body \<Rightarrow> bool" where
  "includes_body coll b = (\<exists>c \<in> set coll. b_id c = b_id b)"

text \<open>The sum of a list of vectors, from the left; the empty sum is the zero vector.\<close>

definition dimensions :: nat where
  "dimensions = 2"

fun vec_sum :: "vec list \<Rightarrow> vec" where
  "vec_sum [] = NDimVector_zero dimensions"
| "vec_sum (v # vs) = foldl add v vs"

text \<open>The sum of the masses of a list of bodies, from the left, starting at zero.\<close>

definition mass_sum :: "body list \<Rightarrow> jsnum" where
  "mass_sum bs = foldl (\<lambda>acc b. jadd acc (b_m b)) (Fin 0) bs"

text \<open>
  Modelled from the spec: \<open>MassiveBody.nCollisionMomentum\<close> (\<open>kinetic-body.js\<close> is
  not among the sources), the momentum-conserving velocity
  \<open>\<Sigma>(mass_i * vel_i) / \<Sigma>(mass_i)\<close> of a group.
\<close>

definition nCollisionMomentum :: "body list \<Rightarrow> vec" where
  "nCollisionMomentum bs =
     NDimVector_div (vec_sum (map (\<lambda>b. NDimVector_mul (b_vel b) (b_m b)) bs)) (mass_sum bs)"


section \<open>The simulation (src/sim/simulation.ts)\<close>

text \<open>
  \<open>BodyList\<close> is a JavaScript \<open>Map\<close> from ids to bodies. A \<open>Map\<close> iterates in insertion
  order, so it is an association list: \<open>set\<close> replaces the value of a present key in
  place and appends an absent one, \<open>delete\<close> removes the key, \<open>get\<close> looks it up.
\<close>

type_synonym BodyList = "(nat \<times> body) list"

definition Map_get :: "BodyList \<Rightarrow> nat \<Rightarrow> body option" where
  "Map_get bodies k = map_of bodies k"

definition Map_set :: "nat \<Rightarrow> body \<Rightarrow> BodyList \<Rightarrow> BodyList" where
  "Map_set k b bodies = AList.update k b bodies"

definition Map_delete :: "nat \<Rightarrow> BodyList \<Rightarrow> BodyList" where
  "Map_delete k bodies = AList.delete k bodies"

definition Map_keys :: "BodyList \<Rightarrow> nat list" where
  "Map_keys bodies = map fst bodies"

definition zeroVector :: vec where
  "zeroVector = [Fin 0, Fin 0]"

definition DISTANCE_SCALE :: jsnum where
  "DISTANCE_SCALE = Fin 6500"

text \<open>
  The state of one force pass: the bodies (only their \<open>acc\<close> fields change during the
  pass), the collision groups and the ids pushed to \<open>collidedIds\<close>. A group holds its
  bodies as they were when pushed; the pass changes no field that the merge reads.
\<close>

record pass_state =
  ps_bodies :: BodyList
  ps_collisions :: "body list list"
  ps_collidedIds :: "nat list"

text \<open>
  \<open>getCollisionWith\<close> returns the first group that holds a body equal to \<open>b1\<close> or to
  \<open>b2\<close>, as a reference to that array: here its index in \<open>collisions\<close>.
\<close>

fun getCollisionWith :: "body list list \<Rightarrow> body \<Rightarrow> body \<Rightarrow> nat option" where
  "getCollisionWith [] b1 b2 = None"
| "getCollisionWith (c # cs) b1 b2 =
     (if \<exists>b \<in> set c. body_eq b b1 \<or> body_eq b b2 then Some 0
      else map_option Suc (getCollisionWith cs b1 b2))"

text \<open>The test of line 108: the scaled distance against the sum of the radii times 400.\<close>

definition scaledDistance :: "body \<Rightarrow> body \<Rightarrow> jsnum" where
  "scaledDistance b1 b2 =
     jmul (NDimVector_magnitude (NDimVector_sub (b_pos b2) (b_pos b1))) DISTANCE_SCALE"

definition collisionThreshold :: "body \<Rightarrow> body \<Rightarrow> jsnum" where
  "collisionThreshold b1 b2 = jmul (jadd (b_r b1) (b_r b2)) (Fin 400)"

text \<open>The factor of line 131, from the displacement \<open>r\<close>.\<close>

definition accFactor :: "body \<Rightarrow> body \<Rightarrow> vec" where
  "accFactor b1 b2 =
     (let r = NDimVector_sub (b_pos b2) (b_pos b1);
          distance = jmul (NDimVector_magnitude r) DISTANCE_SCALE;
          distanceSquared = NDimVector_magnitudeSquared r
      in NDimVector_div r (jmul distanceSquared distance))"

text \<open>
  The body of the inner loop for the bodies \<open>b1\<close> and \<open>b2\<close> found under the keys \<open>k\<close>
  and \<open>k2\<close>. Assigning to \<open>b1.acc\<close> changes the object the map holds; here the changed
  body is written back under its key.
\<close>

definition evalPair :: "nat \<Rightarrow> body \<Rightarrow> nat \<Rightarrow> body \<Rightarrow> pass_state \<Rightarrow> pass_state" where
  "evalPair k b1 k2 b2 st =
     (if jlt (scaledDistance b1 b2) (collisionThreshold b1 b2) then
        (let coll = getCollisionWith (ps_collisions st) b1 b2;
             st1 = st\<lparr>ps_collidedIds := ps_collidedIds st @ [b_id b1, b_id b2]\<rparr>
         in case coll of
              Some i \<Rightarrow>
                (if includes_body (ps_collisions st ! i) b1 then
                   st1\<lparr>ps_collisions := (ps_collisions st)[i := ps_collisions st ! i @ [b2]]\<rparr>
                 else if includes_body (ps_collisions st ! i) b2 then
                   st1\<lparr>ps_collisions := (ps_collisions st)[i := ps_collisions st ! i @ [b1]]\<rparr>
                 else st1)
            | None \<Rightarrow> st1\<lparr>ps_collisions := ps_collisions st @ [[b1, b2]]\<rparr>)
      else
        (let f = accFactor b1 b2;
             b1' = (if \<not> b_isStatic b1
                    then b1\<lparr>b_acc := NDimVector_add (b_acc b1) (NDimVector_mul f (b_m b2))\<rparr>
                    else b1);
             b2' = (if \<not> b_isStatic b2
                    then b2\<lparr>b_acc := NDimVector_sub (b_acc b2) (NDimVector_mul f (b_m b1))\<rparr>
                    else b2)
         in st\<lparr>ps_bodies := Map_set k2 b2' (Map_set k b1' (ps_bodies st))\<rparr>))"

text \<open>
  One iteration of the inner loop: \<open>b2\<close> is looked up and the pair is skipped when it is
  missing. \<open>b1\<close> was looked up with a non-null assertion; reading a field of a missing
  \<open>b1\<close> is a TypeError.
\<close>

datatype js_error = TypeError

definition pairStep :: "nat \<Rightarrow> nat \<Rightarrow> pass_state \<Rightarrow> js_error + pass_state" where
  "pairStep k k2 st =
     (case Map_get (ps_bodies st) k2 of
        None \<Rightarrow> Inr st
      | Some b2 \<Rightarrow>
          (case Map_get (ps_bodies st) k of
             None \<Rightarrow> Inl TypeError
           | Some b1 \<Rightarrow> Inr (evalPair k b1 k2 b2 st)))"

text \<open>The inner loop over the keys after position \<open>i\<close>, and the outer loop over all keys.\<close>

fun innerLoop :: "nat \<Rightarrow> nat list \<Rightarrow> pass_state \<Rightarrow> js_error + pass_state" where
  "innerLoop k [] st = Inr st"
| "innerLoop k (k2 # ks) st =
     (case pairStep k k2 st of Inl e \<Rightarrow> Inl e | Inr st' \<Rightarrow> innerLoop k ks st')"

fun outerLoop :: "nat list \<Rightarrow> pass_state \<Rightarrow> js_error + pass_state" where
  "outerLoop [] st = Inr st"
| "outerLoop (k # ks) st =
     (case innerLoop k ks st of Inl e \<Rightarrow> Inl e | Inr st' \<Rightarrow> outerLoop ks st')"

definition forcePass :: "BodyList \<Rightarrow> js_error + pass_state" where
  "forcePass bodies =
     outerLoop (Map_keys bodies)
       \<lparr>ps_bodies = bodies, ps_collisions = [], ps_collidedIds = []\<rparr>"

fun centerOfMass :: "body list \<Rightarrow> vec" where
  "centerOfMass [] = [Fin 0, Fin 0]"
| "centerOfMass [b1] = b_pos b1"
| "centerOfMass (b1 # bs) =
     (let (mass, moment) =
            foldl (\<lambda>(mass, moment) b.
                     (jadd mass (b_m b),
                      NDimVector_add moment (NDimVector_mul (b_pos b) (b_m b))))
                  (b_m b1, NDimVector_mul (b_pos b1) (b_m b1)) bs
      in NDimVector_div moment mass)"

text \<open>The body that \<open>handleCollisions\<close> constructs for one group; \<open>next_id\<close> is the id
  the constructor hands out.\<close>

definition newBody :: "MassiveBody_class \<Rightarrow> nat \<Rightarrow> body list \<Rightarrow> body" where
  "newBody cls next_id coll =
     (let staticBody = find b_isStatic coll;
          isStatic = (staticBody \<noteq> None);
          mass = foldl (\<lambda>acc b. jadd acc (b_m b)) (Fin 0) coll
      in MassiveBody_new cls next_id dimensions mass
           (if isStatic then zeroVector else centerOfMass coll)
           (if isStatic then zeroVector else nCollisionMomentum coll)
           isStatic)"

text \<open>\<open>handleCollisions\<close> on the map and the id counter, one group after the other.\<close>

fun handleCollisions ::
  "MassiveBody_class \<Rightarrow> body list list \<Rightarrow> BodyList \<times> nat \<Rightarrow> BodyList \<times> nat" where
  "handleCollisions cls [] (bodies, next_id) = (bodies, next_id)"
| "handleCollisions cls (coll # rest) (bodies, next_id) =
     (let nb = newBody cls next_id coll;
          bodies1 = foldl (\<lambda>bs b. Map_delete (b_id b) bs) bodies coll;
          bodies2 = Map_set (b_id nb) nb bodies1
      in handleCollisions cls rest (bodies2, Suc next_id))"

definition updateAcceleration2 ::
  "MassiveBody_class \<Rightarrow> BodyList \<times> nat \<Rightarrow> js_error + BodyList \<times> nat" where
  "updateAcceleration2 cls w =
     (case forcePass (fst w) of
        Inl e \<Rightarrow> Inl e
      | Inr st \<Rightarrow>
          Inr (if ps_collisions st \<noteq> []
               then handleCollisions cls (ps_collisions st) (ps_bodies st, snd w)
               else (ps_bodies st, snd w)))"

definition addBody :: "body \<Rightarrow> BodyList \<Rightarrow> BodyList" where
  "addBody b bodies = Map_set (b_id b) b bodies"

text \<open>
  The contract the specification words for \<open>addBody\<close>: adding a body under an id that is
  already live fails.
\<close>

definition addBody_spec :: "body \<Rightarrow> BodyList \<Rightarrow> contract_error + BodyList" where
  "addBody_spec b bodies =
     (if b_id b \<in> set (Map_keys bodies) then Inl DuplicateId
      else Inr (Map_set (b_id b) b bodies))"

text \<open>
  The acceleration factor as the specification words it:
  \<open>r / (magnitudeSquared(r) * magnitude(r))\<close> for the displacement \<open>r\<close>.
\<close>

definition accelerationFactor_spec :: "body \<Rightarrow> body \<Rightarrow> vec" where
  "accelerationFactor_spec b1 b2 =
     (let r = NDimVector_sub (b_pos b2) (b_pos b1)
      in NDimVector_div r (jmul (NDimVector_magnitudeSquared r) (NDimVector_magnitude r)))"

text \<open>The fields of a body that the merge reads: all but the acceleration.\<close>

definition merge_view :: "body \<Rightarrow> nat \<times> vec \<times> vec \<times> jsnum \<times> jsnum \<times> bool" where
  "merge_view b = (b_id b, b_pos b, b_vel b, b_m b, b_r b, b_isStatic b)"

text \<open>
  A vector of the simulation with finite components, and the real value of a finite
  number; the conservation laws are stated over these.
\<close>

definition finite2 :: "vec \<Rightarrow> bool" where
  "finite2 v = (length v = 2 \<and> list_all is_fin v)"

fun fin_val :: "jsnum \<Rightarrow> real" where
  "fin_val (Fin a) = a"
| "fin_val _ = 0"

text \<open>Bodies and pass states for the worked examples below.\<close>

definition example_body :: "nat \<Rightarrow> real \<Rightarrow> real \<Rightarrow> real \<Rightarrow> real \<Rightarrow> bool \<Rightarrow> body" where
  "example_body i x y mass radius static =
     \<lparr>b_id = i, b_pos = [Fin x, Fin y], b_vel = [Fin 0, Fin 0], b_acc = [Fin 0, Fin 0],
      b_m = Fin mass, b_r = Fin radius, b_isStatic = static\<rparr>"

definition example_class :: MassiveBody_class where
  "example_class = \<lparr>max_mass = Fin 100, radius_of = (\<lambda>mass. mass)\<rparr>"

definition example_pass :: "BodyList \<Rightarrow> pass_state" where
  "example_pass bodies = \<lparr>ps_bodies = bodies, ps_collisions = [], ps_collidedIds = []\<rparr>"


section \<open>Facts about numbers and vectors\<close>

lemmas NDimVector_defs =
  NDimVector_add_def NDimVector_sub_def NDimVector_mul_def NDimVector_div_def
  NDimVector_magnitude_def NDimVector_magnitudeSquared_def

lemmas vector_defs =
  add_def sub_def mul_def div_vec_def zipWith_def magnitude_def magnitudeSquared_def
  jsub_def strict_eq_def

lemmas pair_defs =
  evalPair_def scaledDistance_def collisionThreshold_def accFactor_def DISTANCE_SCALE_def
  body_eq_def includes_body_def Map_get_def Map_set_def Map_keys_def Map_delete_def

lemma jlt_irrefl: "\<not> jlt x x"
  by (cases x) simp_all

lemma jdiv_zero_not_fin: "\<not> is_fin (jdiv c (Fin 0))"
  by (cases c) simp_all

lemma jadd_zero_left: "jadd (Fin 0) x = x"
  by (cases x) simp_all


lemma is_finD: "is_fin a \<Longrightarrow> \<exists>x. a = Fin x"
  by (cases a) simp_all

lemma finite2D: "finite2 v \<Longrightarrow> \<exists>x y. v = [Fin x, Fin y]"
proof -
  assume f: "finite2 v"
  then have "length v = Suc (Suc 0)" by (simp add: finite2_def)
  then obtain a b where v: "v = [a, b]"
    by (auto simp: length_Suc_conv)
  with f have "is_fin a" "is_fin b" by (simp_all add: finite2_def)
  then obtain x y where "a = Fin x" "b = Fin y" by (meson is_finD)
  with v show ?thesis by simp
qed


section \<open>Facts about the map of bodies\<close>

lemma Map_get_set: "Map_get (Map_set k b bodies) j = (if j = k then Some b else Map_get bodies j)"
  by (simp add: Map_get_def Map_set_def update_conv')

lemma Map_get_delete:
  "Map_get (Map_delete k bodies) j = (if j = k then None else Map_get bodies j)"
  by (simp add: Map_get_def Map_delete_def delete_conv')

lemma Map_keys_get: "k \<in> set (Map_keys bodies) \<longleftrightarrow> Map_get bodies k \<noteq> None"
  by (simp add: Map_keys_def Map_get_def map_of_eq_None_iff)

lemma distinct_Map_set:
  "distinct (Map_keys bodies) \<Longrightarrow> distinct (Map_keys (Map_set k b bodies))"
  by (simp add: Map_keys_def Map_set_def distinct_update)

lemma distinct_Map_delete:
  "distinct (Map_keys bodies) \<Longrightarrow> distinct (Map_keys (Map_delete k bodies))"
  by (simp add: Map_keys_def Map_delete_def distinct_delete)

lemma Map_get_delete_all:
  "Map_get (foldl (\<lambda>bs b. Map_delete (b_id b) bs) bodies coll) j =
     (if j \<in> b_id ` set coll then None else Map_get bodies j)"
  by (induction coll arbitrary: bodies) (auto simp: Map_get_delete)

lemma distinct_delete_all:
  "distinct (Map_keys bodies) \<Longrightarrow>
   distinct (Map_keys (foldl (\<lambda>bs b. Map_delete (b_id b) bs) bodies coll))"
  by (induction coll arbitrary: bodies) (auto simp: distinct_Map_delete)


section \<open>Facts about the force pass\<close>

lemma getCollisionWith_Some:
  "getCollisionWith cs b1 b2 = Some i \<Longrightarrow>
     i < length cs \<and> (includes_body (cs ! i) b1 \<or> includes_body (cs ! i) b2)"
proof (induction cs arbitrary: i)
  case Nil
  then show ?case by simp
next
  case (Cons c cs)
  show ?case
  proof (cases "\<exists>b \<in> set c. body_eq b b1 \<or> body_eq b b2")
    case True
    with Cons.prems have "i = 0" by simp
    with True show ?thesis by (auto simp: includes_body_def body_eq_def)
  next
    case False
    with Cons.prems obtain j where j: "getCollisionWith cs b1 b2 = Some j" "i = Suc j"
      by auto
    from Cons.IH[OF j(1)] j(2) show ?thesis by simp
  qed
qed

lemma evalPair_colliding_group:
  assumes "jlt (scaledDistance b1 b2) (collisionThreshold b1 b2)"
  shows "\<exists>g \<in> set (ps_collisions (evalPair k b1 k2 b2 st)).
           includes_body g b1 \<and> includes_body g b2"
proof (cases "getCollisionWith (ps_collisions st) b1 b2")
  case None
  with assms show ?thesis
    by (simp add: evalPair_def Let_def includes_body_def)
next
  case (Some i)
  let ?cs = "ps_collisions st"
  from getCollisionWith_Some[OF Some]
  have i: "i < length ?cs" and inc: "includes_body (?cs ! i) b1 \<or> includes_body (?cs ! i) b2"
    by simp_all
  show ?thesis
  proof (cases "includes_body (?cs ! i) b1")
    case True
    then have "includes_body (?cs ! i @ [b2]) b1 \<and> includes_body (?cs ! i @ [b2]) b2"
      by (auto simp: includes_body_def)
    moreover have "?cs ! i @ [b2] \<in> set (?cs[i := ?cs ! i @ [b2]])"
      using i by (simp add: set_update_memI)
    ultimately show ?thesis using assms Some True
      by (auto simp: evalPair_def Let_def)
  next
    case False
    with inc have inc2: "includes_body (?cs ! i) b2" by simp
    then have "includes_body (?cs ! i @ [b1]) b1 \<and> includes_body (?cs ! i @ [b1]) b2"
      by (auto simp: includes_body_def)
    moreover have "?cs ! i @ [b1] \<in> set (?cs[i := ?cs ! i @ [b1]])"
      using i by (simp add: set_update_memI)
    ultimately show ?thesis using assms Some False inc2
      by (auto simp: evalPair_def Let_def)
  qed
qed

lemma evalPair_collidedIds:
  "ps_collidedIds (evalPair k b1 k2 b2 st) =
     (if jlt (scaledDistance b1 b2) (collisionThreshold b1 b2)
      then ps_collidedIds st @ [b_id b1, b_id b2] else ps_collidedIds st)"
  by (simp add: evalPair_def Let_def split: option.split)

lemma evalPair_not_colliding:
  assumes "\<not> jlt (scaledDistance b1 b2) (collisionThreshold b1 b2)"
  shows "evalPair k b1 k2 b2 st =
     st\<lparr>ps_bodies :=
          Map_set k2
            (if b_isStatic b2 then b2
             else b2\<lparr>b_acc := NDimVector_sub (b_acc b2)
                                 (NDimVector_mul (accFactor b1 b2) (b_m b1))\<rparr>)
            (Map_set k
               (if b_isStatic b1 then b1
                else b1\<lparr>b_acc := NDimVector_add (b_acc b1)
                                    (NDimVector_mul (accFactor b1 b2) (b_m b2))\<rparr>)
               (ps_bodies st))\<rparr>"
  using assms by (simp add: evalPair_def Let_def)

lemma accFactor_code:
  "accFactor b1 b2 =
     (let r = sub (b_pos b2) (b_pos b1)
      in NDimVector_div r (jmul (magnitudeSquared r) (jmul (magnitude r) (Fin 6500))))"
  by (simp add: accFactor_def Let_def NDimVector_defs DISTANCE_SCALE_def)

text \<open>The factor for two bodies at distinct finite positions is finite.\<close>

lemma accFactor_finite:
  assumes p1: "b_pos b1 = [Fin x1, Fin y1]" and p2: "b_pos b2 = [Fin x2, Fin y2]"
    and ne: "b_pos b1 \<noteq> b_pos b2"
  shows "accFactor b1 b2 =
     [Fin ((x2 - x1) / (((x2 - x1) * (x2 - x1) + (y2 - y1) * (y2 - y1))
             * (sqrt ((x2 - x1) * (x2 - x1) + (y2 - y1) * (y2 - y1)) * 6500))),
      Fin ((y2 - y1) / (((x2 - x1) * (x2 - x1) + (y2 - y1) * (y2 - y1))
             * (sqrt ((x2 - x1) * (x2 - x1) + (y2 - y1) * (y2 - y1)) * 6500)))]"
proof -
  let ?q = "(x2 - x1) * (x2 - x1) + (y2 - y1) * (y2 - y1)"
  from ne p1 p2 have "x2 - x1 \<noteq> 0 \<or> y2 - y1 \<noteq> 0" by auto
  then have q0: "?q \<noteq> 0" by (simp add: sum_squares_eq_zero_iff)
  have qpos: "\<not> ?q < 0" by (simp add: not_less)
  have ms: "magnitudeSquared (sub (b_pos b2) (b_pos b1)) = Fin ?q"
    by (simp add: p1 p2 vector_defs)
  have mg: "magnitude (sub (b_pos b2) (b_pos b1)) = Fin (sqrt ?q)"
    unfolding magnitude_def ms using qpos by simp
  have d0: "?q * (sqrt ?q * 6500) \<noteq> 0" using q0 by simp
  show ?thesis
    unfolding accFactor_code Let_def ms mg
    using d0 by (simp add: p1 p2 NDimVector_div_def div_vec_def sub_def zipWith_def jsub_def)
qed

text \<open>
  The pass returns: every key the loops visit is a key of the map, so \<open>b1\<close> is never
  missing, and the keys of the map stay as they are.
\<close>

lemma Map_keys_set:
  "set (Map_keys (Map_set k b bodies)) = insert k (set (Map_keys bodies))"
  by (auto simp: Map_keys_get Map_get_set split: if_splits)

lemma evalPair_keys:
  assumes "Map_get (ps_bodies st) k \<noteq> None" and "Map_get (ps_bodies st) k2 \<noteq> None"
  shows "set (Map_keys (ps_bodies (evalPair k b1 k2 b2 st))) = set (Map_keys (ps_bodies st))"
proof (cases "jlt (scaledDistance b1 b2) (collisionThreshold b1 b2)")
  case True
  then show ?thesis by (simp add: evalPair_def Let_def split: option.split)
next
  case False
  from assms have "k \<in> set (Map_keys (ps_bodies st))" "k2 \<in> set (Map_keys (ps_bodies st))"
    by (simp_all add: Map_keys_get)
  then show ?thesis
    unfolding evalPair_not_colliding[OF False] by (auto simp: Map_keys_set)
qed

lemma pairStep_returns:
  assumes "k \<in> set (Map_keys (ps_bodies st))"
  shows "\<exists>st'. pairStep k k2 st = Inr st'
           \<and> set (Map_keys (ps_bodies st')) = set (Map_keys (ps_bodies st))"
proof (cases "Map_get (ps_bodies st) k2")
  case None
  then show ?thesis by (simp add: pairStep_def)
next
  case (Some b2)
  from assms obtain b1 where b1: "Map_get (ps_bodies st) k = Some b1"
    by (auto simp: Map_keys_get)
  with Some have "pairStep k k2 st = Inr (evalPair k b1 k2 b2 st)"
    by (simp add: pairStep_def)
  moreover have "set (Map_keys (ps_bodies (evalPair k b1 k2 b2 st))) = set (Map_keys (ps_bodies st))"
    using b1 Some by (simp add: evalPair_keys)
  ultimately show ?thesis by simp
qed

lemma innerLoop_returns:
  assumes "k \<in> set (Map_keys (ps_bodies st))"
  shows "\<exists>st'. innerLoop k ks st = Inr st'
           \<and> set (Map_keys (ps_bodies st')) = set (Map_keys (ps_bodies st))"
  using assms
proof (induction ks arbitrary: st)
  case Nil
  then show ?case by simp
next
  case (Cons k2 ks)
  from pairStep_returns[OF Cons.prems, of k2] obtain st1 where
    st1: "pairStep k k2 st = Inr st1"
      "set (Map_keys (ps_bodies st1)) = set (Map_keys (ps_bodies st))" by blast
  with Cons.prems have "k \<in> set (Map_keys (ps_bodies st1))" by simp
  from Cons.IH[OF this] st1 show ?case by simp
qed

lemma outerLoop_returns:
  assumes "set ks \<subseteq> set (Map_keys (ps_bodies st))"
  shows "\<exists>st'. outerLoop ks st = Inr st'
           \<and> set (Map_keys (ps_bodies st')) = set (Map_keys (ps_bodies st))"
  using assms
proof (induction ks arbitrary: st)
  case Nil
  then show ?case by simp
next
  case (Cons k ks)
  then have "k \<in> set (Map_keys (ps_bodies st))" by simp
  from innerLoop_returns[OF this, of ks] obtain st1 where
    st1: "innerLoop k ks st = Inr st1"
      "set (Map_keys (ps_bodies st1)) = set (Map_keys (ps_bodies st))" by blast
  with Cons.prems have "set ks \<subseteq> set (Map_keys (ps_bodies st1))" by simp
  from Cons.IH[OF this] st1 show ?case by simp
qed

lemma forcePass_returns:
  "\<exists>st. forcePass bodies = Inr st \<and> set (Map_keys (ps_bodies st)) = set (Map_keys bodies)"
  using outerLoop_returns[of "Map_keys bodies"
      "\<lparr>ps_bodies = bodies, ps_collisions = [], ps_collidedIds = []\<rparr>"]
  by (simp add: forcePass_def)

lemma updateAcceleration2_returns:
  "\<exists>w'. updateAcceleration2 cls w = Inr w'"
  using forcePass_returns[of "fst w"] by (auto simp: updateAcceleration2_def)

text \<open>
  The pass changes accelerations only, so a body pushed to a group and the same body in the
  map agree on all that the merge reads.
\<close>

lemma evalPair_view:
  assumes "Map_get (ps_bodies st) k = Some b1" and "Map_get (ps_bodies st) k2 = Some b2"
  shows "map_option merge_view (Map_get (ps_bodies (evalPair k b1 k2 b2 st)) j)
           = map_option merge_view (Map_get (ps_bodies st) j)"
proof (cases "jlt (scaledDistance b1 b2) (collisionThreshold b1 b2)")
  case True
  then show ?thesis by (simp add: evalPair_def Let_def split: option.split)
next
  case False
  show ?thesis
    unfolding evalPair_not_colliding[OF False] using assms
    by (simp add: Map_get_set merge_view_def)
qed

lemma pairStep_view:
  assumes "pairStep k k2 st = Inr st'"
  shows "map_option merge_view (Map_get (ps_bodies st') j)
           = map_option merge_view (Map_get (ps_bodies st) j)"
  using assms
  by (auto simp: pairStep_def evalPair_view split: option.splits)

lemma innerLoop_view:
  assumes "innerLoop k ks st = Inr st'"
  shows "map_option merge_view (Map_get (ps_bodies st') j)
           = map_option merge_view (Map_get (ps_bodies st) j)"
  using assms
proof (induction ks arbitrary: st)
  case Nil
  then show ?case by simp
next
  case (Cons k2 ks)
  then obtain st1 where st1: "pairStep k k2 st = Inr st1" "innerLoop k ks st1 = Inr st'"
    by (auto split: sum.splits)
  from Cons.IH[OF st1(2)] pairStep_view[OF st1(1)] show ?case by simp
qed

lemma outerLoop_view:
  assumes "outerLoop ks st = Inr st'"
  shows "map_option merge_view (Map_get (ps_bodies st') j)
           = map_option merge_view (Map_get (ps_bodies st) j)"
  using assms
proof (induction ks arbitrary: st)
  case Nil
  then show ?case by simp
next
  case (Cons k ks)
  then obtain st1 where st1: "innerLoop k ks st = Inr st1" "outerLoop ks st1 = Inr st'"
    by (auto split: sum.splits)
  from Cons.IH[OF st1(2)] innerLoop_view[OF st1(1)] show ?case by simp
qed

lemma forcePass_view:
  assumes "forcePass bodies = Inr st"
  shows "map_option merge_view (Map_get (ps_bodies st) j) = map_option merge_view (Map_get bodies j)"
  using outerLoop_view[OF assms[unfolded forcePass_def]] by simp


section \<open>Facts about the merge\<close>

lemma newBody_id: "b_id (newBody cls next_id coll) = next_id"
  by (simp add: newBody_def MassiveBody_new_def Let_def)

lemma handleCollisions_counter:
  "snd (handleCollisions cls colls (bodies, next_id)) = next_id + length colls"
  by (induction colls arbitrary: bodies next_id) (simp_all add: Let_def)

lemma handleCollisions_distinct:
  "distinct (Map_keys bodies) \<Longrightarrow>
   distinct (Map_keys (fst (handleCollisions cls colls (bodies, next_id))))"
  by (induction colls arbitrary: bodies next_id)
     (simp_all add: Let_def distinct_Map_set distinct_delete_all)

text \<open>
  What the map holds after all groups are resolved, when every member's id was handed out
  before the counter reached \<open>next_id\<close>: the product of group \<open>i\<close> under the id
  \<open>next_id + i\<close>, no member, and every other body as before.
\<close>

lemma handleCollisions_get:
  assumes "\<forall>c \<in> set colls. \<forall>b \<in> set c. b_id b < next_id"
  shows "Map_get (fst (handleCollisions cls colls (bodies, next_id))) j =
     (if next_id \<le> j \<and> j < next_id + length colls
      then Some (newBody cls j (colls ! (j - next_id)))
      else if j \<in> (\<Union>c \<in> set colls. b_id ` set c) then None
      else Map_get bodies j)"
  using assms
proof (induction colls arbitrary: bodies next_id)
  case Nil
  then show ?case by auto
next
  case (Cons coll rest)
  let ?nb = "newBody cls next_id coll"
  let ?bodies2 = "Map_set (b_id ?nb) ?nb (foldl (\<lambda>bs b. Map_delete (b_id b) bs) bodies coll)"
  have ids: "\<forall>c \<in> set rest. \<forall>b \<in> set c. b_id b < Suc next_id"
    using Cons.prems by (simp add: less_SucI)
  have step: "handleCollisions cls (coll # rest) (bodies, next_id)
                = handleCollisions cls rest (?bodies2, Suc next_id)"
    by (simp add: Let_def)
  have b2: "Map_get ?bodies2 j =
      (if j = next_id then Some ?nb
       else if j \<in> b_id ` set coll then None else Map_get bodies j)"
    by (simp add: Map_get_set Map_get_delete_all newBody_id)
  show ?case
  proof (cases "j = next_id")
    case True
    then have "j \<notin> (\<Union>c \<in> set rest. b_id ` set c)" using Cons.prems by auto
    with True show ?thesis
      unfolding step Cons.IH[OF ids] b2 by simp
  next
    case False
    show ?thesis
    proof (cases "Suc next_id \<le> j \<and> j < Suc next_id + length rest")
      case True
      then have "j - next_id = Suc (j - Suc next_id)" by arith
      then have "(coll # rest) ! (j - next_id) = rest ! (j - Suc next_id)"
        by simp
      with True show ?thesis
        unfolding step Cons.IH[OF ids] by simp
    next
      case out: False
      with False have "\<not> (next_id \<le> j \<and> j < next_id + length (coll # rest))" by auto
      with out False show ?thesis
        unfolding step Cons.IH[OF ids] b2 by auto
    qed
  qed
qed

lemma find_static: "(find b_isStatic coll = None) = (\<forall>b \<in> set coll. \<not> b_isStatic b)"
  by (auto simp: find_None_iff)

lemma centerOfMass_loop:
  "foldl (\<lambda>(mass, moment) b.
            (jadd mass (b_m b), NDimVector_add moment (NDimVector_mul (b_pos b) (b_m b))))
         (a, v) bs
   = (foldl (\<lambda>acc b. jadd acc (b_m b)) a bs,
      foldl add v (map (\<lambda>b. NDimVector_mul (b_pos b) (b_m b)) bs))"
  by (induction bs arbitrary: a v) (simp_all add: NDimVector_add_def)

lemma centerOfMass_formula:
  assumes "2 \<le> length coll"
  shows "centerOfMass coll =
     NDimVector_div (vec_sum (map (\<lambda>b. NDimVector_mul (b_pos b) (b_m b)) coll)) (mass_sum coll)"
proof -
  from assms obtain b1 b2 bs where coll: "coll = b1 # b2 # bs"
    by (cases coll; cases "tl coll") auto
  show ?thesis
    unfolding coll
    by (simp add: centerOfMass_loop mass_sum_def jadd_zero_left) (simp add: NDimVector_add_def)
qed

lemma newBody_static:
  assumes "\<exists>b \<in> set coll. b_isStatic b"
  shows "b_isStatic (newBody cls n coll) \<and> b_pos (newBody cls n coll) = [Fin 0, Fin 0]
       \<and> b_vel (newBody cls n coll) = [Fin 0, Fin 0]"
proof -
  from assms have "find b_isStatic coll \<noteq> None" by (simp add: find_static)
  then show ?thesis
    by (simp add: newBody_def MassiveBody_new_def Let_def zeroVector_def del: not_None_eq)
qed

lemma newBody_dynamic:
  assumes "\<forall>b \<in> set coll. \<not> b_isStatic b"
  shows "\<not> b_isStatic (newBody cls n coll) \<and> b_pos (newBody cls n coll) = centerOfMass coll
       \<and> b_vel (newBody cls n coll) = nCollisionMomentum coll"
proof -
  from assms have "find b_isStatic coll = None" by (simp add: find_static)
  then show ?thesis
    by (simp add: newBody_def MassiveBody_new_def Let_def)
qed

text \<open>
  The product of a group of two or more entries, found under its id after
  \<open>handleCollisions\<close>: static, at the origin and at rest if an entry is static; otherwise
  not static, with the position and the velocity that the sums over the entries of the
  list give. An entry that is in the list twice counts twice.
\<close>

lemma handleCollisions_product:
  assumes "\<forall>c \<in> set colls. \<forall>b \<in> set c. b_id b < next_id"
    and "i < length colls"
    and "2 \<le> length (colls ! i)"
  shows "\<exists>nb. Map_get (fst (handleCollisions cls colls (bodies, next_id))) (next_id + i) = Some nb
     \<and> ((\<exists>b \<in> set (colls ! i). b_isStatic b) \<longrightarrow>
          b_isStatic nb \<and> b_pos nb = [Fin 0, Fin 0] \<and> b_vel nb = [Fin 0, Fin 0])
     \<and> ((\<forall>b \<in> set (colls ! i). \<not> b_isStatic b) \<longrightarrow>
          \<not> b_isStatic nb
          \<and> b_pos nb = NDimVector_div
                (vec_sum (map (\<lambda>b. NDimVector_mul (b_pos b) (b_m b)) (colls ! i)))
                (mass_sum (colls ! i))
          \<and> b_vel nb = NDimVector_div
                (vec_sum (map (\<lambda>b. NDimVector_mul (b_vel b) (b_m b)) (colls ! i)))
                (mass_sum (colls ! i)))"
proof -
  let ?nb = "newBody cls (next_id + i) (colls ! i)"
  have "Map_get (fst (handleCollisions cls colls (bodies, next_id))) (next_id + i) = Some ?nb"
    using assms(2) by (simp add: handleCollisions_get[OF assms(1)])
  moreover have "(\<exists>b \<in> set (colls ! i). b_isStatic b) \<longrightarrow>
          b_isStatic ?nb \<and> b_pos ?nb = [Fin 0, Fin 0] \<and> b_vel ?nb = [Fin 0, Fin 0]"
    using newBody_static by blast
  moreover have "(\<forall>b \<in> set (colls ! i). \<not> b_isStatic b) \<longrightarrow>
          \<not> b_isStatic ?nb
          \<and> b_pos ?nb = NDimVector_div
                (vec_sum (map (\<lambda>b. NDimVector_mul (b_pos b) (b_m b)) (colls ! i)))
                (mass_sum (colls ! i))
          \<and> b_vel ?nb = NDimVector_div
                (vec_sum (map (\<lambda>b. NDimVector_mul (b_vel b) (b_m b)) (colls ! i)))
                (mass_sum (colls ! i))"
    using newBody_dynamic[of "colls ! i" cls "next_id + i"] centerOfMass_formula[OF assms(3)]
    by (simp add: nCollisionMomentum_def)
  ultimately show ?thesis by blast
qed

text \<open>With finite masses and velocities the sums of the merge are the sums of real numbers.\<close>

lemma mass_fold_finite:
  "\<forall>b \<in> set bs. is_fin (b_m b) \<Longrightarrow>
   foldl (\<lambda>acc b. jadd acc (b_m b)) (Fin a) bs = Fin (a + (\<Sum>b\<leftarrow>bs. fin_val (b_m b)))"
proof (induction bs arbitrary: a)
  case Nil
  then show ?case by simp
next
  case (Cons b bs)
  then obtain mb where mb: "b_m b = Fin mb" by (auto dest: is_finD)
  from Cons.prems have "\<forall>b \<in> set bs. is_fin (b_m b)" by simp
  from Cons.IH[OF this, of "a + mb"] mb show ?case by (simp add: add.assoc)
qed

lemma mass_sum_finite:
  "\<forall>b \<in> set bs. is_fin (b_m b) \<Longrightarrow> mass_sum bs = Fin (\<Sum>b\<leftarrow>bs. fin_val (b_m b))"
  using mass_fold_finite[of bs 0] by (simp add: mass_sum_def)

lemma momentum_term_finite:
  assumes "finite2 (b_vel b)" "is_fin (b_m b)"
  shows "NDimVector_mul (b_vel b) (b_m b) =
      [Fin (fin_val (b_m b) * fin_val (b_vel b ! 0)), Fin (fin_val (b_m b) * fin_val (b_vel b ! 1))]"
proof -
  from assms obtain x y mb where "b_vel b = [Fin x, Fin y]" "b_m b = Fin mb"
    by (metis finite2D is_finD)
  then show ?thesis by (simp add: NDimVector_mul_def mul_def mult.commute)
qed

lemma momentum_fold_finite:
  "\<forall>b \<in> set bs. finite2 (b_vel b) \<and> is_fin (b_m b) \<Longrightarrow>
   foldl add [Fin a, Fin c] (map (\<lambda>b. NDimVector_mul (b_vel b) (b_m b)) bs) =
     [Fin (a + (\<Sum>b\<leftarrow>bs. fin_val (b_m b) * fin_val (b_vel b ! 0))),
      Fin (c + (\<Sum>b\<leftarrow>bs. fin_val (b_m b) * fin_val (b_vel b ! 1)))]"
proof (induction bs arbitrary: a c)
  case Nil
  then show ?case by simp
next
  case (Cons b bs)
  then have b: "finite2 (b_vel b)" "is_fin (b_m b)"
    and rest: "\<forall>b \<in> set bs. finite2 (b_vel b) \<and> is_fin (b_m b)" by simp_all
  have step: "add [Fin a, Fin c] (NDimVector_mul (b_vel b) (b_m b)) =
      [Fin (a + fin_val (b_m b) * fin_val (b_vel b ! 0)),
       Fin (c + fin_val (b_m b) * fin_val (b_vel b ! 1))]"
    by (simp add: momentum_term_finite[OF b] add_def zipWith_def)
  have "foldl add [Fin a, Fin c] (map (\<lambda>b. NDimVector_mul (b_vel b) (b_m b)) (b # bs)) =
        foldl add (add [Fin a, Fin c] (NDimVector_mul (b_vel b) (b_m b)))
          (map (\<lambda>b. NDimVector_mul (b_vel b) (b_m b)) bs)"
    by simp
  also have "\<dots> =
     [Fin (a + fin_val (b_m b) * fin_val (b_vel b ! 0)
             + (\<Sum>b\<leftarrow>bs. fin_val (b_m b) * fin_val (b_vel b ! 0))),
      Fin (c + fin_val (b_m b) * fin_val (b_vel b ! 1)
             + (\<Sum>b\<leftarrow>bs. fin_val (b_m b) * fin_val (b_vel b ! 1)))]"
    unfolding step by (rule Cons.IH[OF rest])
  finally show ?case by (simp add: add.assoc)
qed

lemma momentum_sum_finite:
  assumes "\<forall>b \<in> set bs. finite2 (b_vel b) \<and> is_fin (b_m b)" and "bs \<noteq> []"
  shows "vec_sum (map (\<lambda>b. NDimVector_mul (b_vel b) (b_m b)) bs) =
     [Fin (\<Sum>b\<leftarrow>bs. fin_val (b_m b) * fin_val (b_vel b ! 0)),
      Fin (\<Sum>b\<leftarrow>bs. fin_val (b_m b) * fin_val (b_vel b ! 1))]"
proof -
  from assms(2) obtain b rest where bs: "bs = b # rest" by (cases bs) auto
  with assms(1) have b: "finite2 (b_vel b)" "is_fin (b_m b)"
    and rest: "\<forall>b \<in> set rest. finite2 (b_vel b) \<and> is_fin (b_m b)" by simp_all
  have "vec_sum (map (\<lambda>b. NDimVector_mul (b_vel b) (b_m b)) bs) =
        foldl add [Fin (fin_val (b_m b) * fin_val (b_vel b ! 0)),
                   Fin (fin_val (b_m b) * fin_val (b_vel b ! 1))]
          (map (\<lambda>b. NDimVector_mul (b_vel b) (b_m b)) rest)"
    unfolding bs by (simp add: momentum_term_finite[OF b])
  also note momentum_fold_finite[OF rest]
  finally show ?thesis unfolding bs by simp
qed

lemma newBody_mass:
  "b_m (newBody cls n coll) =
     (if jlt (max_mass cls) (mass_sum coll) then max_mass cls else mass_sum coll)"
  by (simp add: newBody_def MassiveBody_new_def Let_def mass_sum_def)

text \<open>The definitions that a run of the pass on concrete bodies unfolds.\<close>

lemmas run_defs =
  forcePass_def updateAcceleration2_def pairStep_def example_body_def example_class_def
  pair_defs NDimVector_defs vector_defs newBody_def MassiveBody_new_def Let_def
  mass_sum_def nCollisionMomentum_def NDimVector_zero_def zeroVector_def dimensions_def


section \<open>The claims\<close>

text \<open>
  C1. The claim: for a non-colliding pair the factor of the force pass is
  \<open>r / (magnitudeSquared(r) * magnitude(r))\<close>, and \<open>DISTANCE_SCALE\<close> enters the collision
  test only. The code divides by \<open>distanceSquared * distance\<close>, where \<open>distance\<close> is the
  scaled distance, although its own comment gives \<open>r / mag^3\<close>. For the bodies at
  \<open>(0, 0)\<close> and \<open>(3, 4)\<close> with radius 1, which do not collide, the code computes
  \<open>(3, 4) / 812500\<close> and the claimed formula gives \<open>(3, 4) / 125\<close>.
\<close>

theorem accFactor_scaled_example:
  "\<not> jlt (scaledDistance (example_body 1 0 0 1 1 False) (example_body 2 3 4 1 1 False))
          (collisionThreshold (example_body 1 0 0 1 1 False) (example_body 2 3 4 1 1 False))
   \<and> accFactor (example_body 1 0 0 1 1 False) (example_body 2 3 4 1 1 False)
       = [Fin (3 / 812500), Fin (4 / 812500)]
   \<and> accelerationFactor_spec (example_body 1 0 0 1 1 False) (example_body 2 3 4 1 1 False)
       = [Fin (3 / 125), Fin (4 / 125)]"
  by (simp add: example_body_def pair_defs accelerationFactor_spec_def NDimVector_defs
        vector_defs)

text \<open>
  C2, as the code has it. For a group that holds each member once, with finite masses whose
  sum does not exceed \<open>MAX_MASS\<close>, the mass of the product found under its id after
  \<open>handleCollisions\<close> is the sum of the members' masses. If moreover no member is static,
  the velocities are finite and the mass sum is not zero, the momentum of the product,
  its velocity times its mass, is the sum of the members' momenta.
\<close>

theorem merge_conserves_mass_momentum:
  assumes ids: "\<forall>c \<in> set colls. \<forall>b \<in> set c. b_id b < next_id"
    and i: "i < length colls"
    and dist: "distinct (map b_id (colls ! i))"
    and fin: "\<forall>b \<in> set (colls ! i). is_fin (b_m b)"
    and cap: "\<not> jlt (max_mass cls) (Fin (\<Sum>b\<leftarrow>colls ! i. fin_val (b_m b)))"
  shows "\<exists>nb. Map_get (fst (handleCollisions cls colls (bodies, next_id))) (next_id + i) = Some nb
     \<and> b_m nb = Fin (\<Sum>b\<leftarrow>colls ! i. fin_val (b_m b))
     \<and> ((\<forall>b \<in> set (colls ! i). \<not> b_isStatic b \<and> finite2 (b_vel b))
          \<and> (\<Sum>b\<leftarrow>colls ! i. fin_val (b_m b)) \<noteq> 0 \<longrightarrow>
        NDimVector_mul (b_vel nb) (b_m nb) =
          [Fin (\<Sum>b\<leftarrow>colls ! i. fin_val (b_m b) * fin_val (b_vel b ! 0)),
           Fin (\<Sum>b\<leftarrow>colls ! i. fin_val (b_m b) * fin_val (b_vel b ! 1))])"
proof -
  let ?coll = "colls ! i"
  let ?nb = "newBody cls (next_id + i) ?coll"
  let ?M = "\<Sum>b\<leftarrow>?coll. fin_val (b_m b)"
  have get: "Map_get (fst (handleCollisions cls colls (bodies, next_id))) (next_id + i) = Some ?nb"
    using i by (simp add: handleCollisions_get[OF ids])
  have mass: "b_m ?nb = Fin ?M"
    using cap by (simp add: newBody_mass mass_sum_finite[OF fin])
  have mom: "NDimVector_mul (b_vel ?nb) (b_m ?nb) =
          [Fin (\<Sum>b\<leftarrow>?coll. fin_val (b_m b) * fin_val (b_vel b ! 0)),
           Fin (\<Sum>b\<leftarrow>?coll. fin_val (b_m b) * fin_val (b_vel b ! 1))]"
    if dyn: "\<forall>b \<in> set ?coll. \<not> b_isStatic b \<and> finite2 (b_vel b)" and M: "?M \<noteq> 0"
  proof -
    from M have ne: "?coll \<noteq> []" by auto
    from dyn fin have fv: "\<forall>b \<in> set ?coll. finite2 (b_vel b) \<and> is_fin (b_m b)" by simp
    from dyn have "\<forall>b \<in> set ?coll. \<not> b_isStatic b" by simp
    from newBody_dynamic[OF this, of cls "next_id + i"]
    have "b_vel ?nb = nCollisionMomentum ?coll" by simp
    also have "\<dots> = NDimVector_div
          [Fin (\<Sum>b\<leftarrow>?coll. fin_val (b_m b) * fin_val (b_vel b ! 0)),
           Fin (\<Sum>b\<leftarrow>?coll. fin_val (b_m b) * fin_val (b_vel b ! 1))] (Fin ?M)"
      unfolding nCollisionMomentum_def momentum_sum_finite[OF fv ne] mass_sum_finite[OF fin] ..
    finally have vel: "b_vel ?nb = NDimVector_div
          [Fin (\<Sum>b\<leftarrow>?coll. fin_val (b_m b) * fin_val (b_vel b ! 0)),
           Fin (\<Sum>b\<leftarrow>?coll. fin_val (b_m b) * fin_val (b_vel b ! 1))] (Fin ?M)" .
    show ?thesis
      unfolding mass vel using M
      by (simp add: NDimVector_div_def div_vec_def NDimVector_mul_def mul_def)
  qed
  from get mass mom show ?thesis by blast
qed

text \<open>
  Masses 1 and 3 with velocities \<open>(2, 0)\<close> and \<open>(-2, 4)\<close>: the product has mass 4 and
  momentum \<open>(-4, 12)\<close>.
\<close>

theorem merge_conserves_mass_momentum_witness:
  "list_all (list_all (\<lambda>b. b_id b < 3))
     [[(example_body 1 0 0 1 1 False)\<lparr>b_vel := [Fin 2, Fin 0]\<rparr>,
       (example_body 2 4 0 3 1 False)\<lparr>b_vel := [Fin (- 2), Fin 4]\<rparr>]]
   \<and> \<not> jlt (max_mass example_class) (Fin 4)
   \<and> (\<exists>nb. Map_get (fst (handleCollisions example_class
        [[(example_body 1 0 0 1 1 False)\<lparr>b_vel := [Fin 2, Fin 0]\<rparr>,
          (example_body 2 4 0 3 1 False)\<lparr>b_vel := [Fin (- 2), Fin 4]\<rparr>]] ([], 3))) 3 = Some nb
      \<and> b_m nb = Fin 4
      \<and> NDimVector_mul (b_vel nb) (b_m nb) = [Fin (- 4), Fin 12])"
proof -
  let ?b1 = "(example_body 1 0 0 1 1 False)\<lparr>b_vel := [Fin 2, Fin 0]\<rparr>"
  let ?b2 = "(example_body 2 4 0 3 1 False)\<lparr>b_vel := [Fin (- 2), Fin 4]\<rparr>"
  let ?colls = "[[?b1, ?b2]]"
  have ids: "\<forall>c \<in> set ?colls. \<forall>b \<in> set c. b_id b < 3"
    by (simp add: example_body_def)
  have i: "0 < length ?colls" by simp
  have dist: "distinct (map b_id (?colls ! 0))" by (simp add: example_body_def)
  have fin: "\<forall>b \<in> set (?colls ! 0). is_fin (b_m b)" by (simp add: example_body_def)
  have M: "(\<Sum>b\<leftarrow>?colls ! 0. fin_val (b_m b)) = 4" by (simp add: example_body_def)
  have cap: "\<not> jlt (max_mass example_class) (Fin (\<Sum>b\<leftarrow>?colls ! 0. fin_val (b_m b)))"
    unfolding M by (simp add: example_class_def)
  have dyn: "\<forall>b \<in> set (?colls ! 0). \<not> b_isStatic b \<and> finite2 (b_vel b)"
    by (simp add: example_body_def finite2_def)
  have p0: "(\<Sum>b\<leftarrow>?colls ! 0. fin_val (b_m b) * fin_val (b_vel b ! 0)) = - 4"
    by (simp add: example_body_def)
  have p1: "(\<Sum>b\<leftarrow>?colls ! 0. fin_val (b_m b) * fin_val (b_vel b ! 1)) = 12"
    by (simp add: example_body_def)
  from merge_conserves_mass_momentum[OF ids i dist fin cap, of "[]"] dyn
  have "\<exists>nb. Map_get (fst (handleCollisions example_class ?colls ([], 3))) 3 = Some nb
      \<and> b_m nb = Fin 4 \<and> NDimVector_mul (b_vel nb) (b_m nb) = [Fin (- 4), Fin 12]"
    unfolding M p0 p1 by auto
  moreover have "list_all (list_all (\<lambda>b. b_id b < 3)) ?colls"
    using ids by (simp add: list_all_iff)
  moreover have "\<not> jlt (max_mass example_class) (Fin 4)"
    by (simp add: example_class_def)
  ultimately show ?thesis by blast
qed

text \<open>
  C2 as stated fails twice. Three bodies of mass 1, 2 and 4 that all touch one another are
  merged into one body of mass 11, because the third body enters the group twice; and
  two touching bodies of mass 60 each are merged into a body of mass 100 when \<open>MAX_MASS\<close>
  is 100, because the constructor clamps the mass.
\<close>

theorem merge_mass_counterexample:
  "map_sum id (\<lambda>w. map (\<lambda>(k, b). (k, b_m b)) (fst w))
     (updateAcceleration2 example_class
        ([(1, example_body 1 0 0 1 20 False), (2, example_body 2 2 0 2 20 False),
          (3, example_body 3 1 0 4 20 False)], 4))
     = Inr [(4, Fin 11)]
   \<and> map_sum id (\<lambda>w. map (\<lambda>(k, b). (k, b_m b)) (fst w))
     (updateAcceleration2 example_class
        ([(1, example_body 1 0 0 60 10 False), (2, example_body 2 1 0 60 10 False)], 3))
     = Inr [(3, Fin 100)]"
  by (simp add: run_defs)

text \<open>
  C3. The claim: groups that come to share a body are united, so that no body is in two
  groups or twice in one. The code adds the other body of a colliding pair to the first
  group that holds either of them and never looks at a second group. Four bodies on a
  line at 0, 3, 1 and 2 (ids 1 to 4, radius 10) give the groups \<open>[1, 3, 4]\<close> and
  \<open>[2, 4]\<close>, and the merge turns masses 1, 2, 4, 8 into products of mass 13 and 10. Three
  bodies at 0, 2 and 1 (radius 20) give the one group \<open>[1, 2, 3, 3]\<close>.
\<close>

theorem groups_share_a_body:
  "map_sum id (\<lambda>st. map (map b_id) (ps_collisions st))
     (forcePass [(1, example_body 1 0 0 1 10 False), (2, example_body 2 3 0 2 10 False),
                 (3, example_body 3 1 0 4 10 False), (4, example_body 4 2 0 8 10 False)])
     = Inr [[1, 3, 4], [2, 4]]
   \<and> map_sum id (\<lambda>w. map (\<lambda>(k, b). (k, b_m b)) (fst w))
     (updateAcceleration2 example_class
        ([(1, example_body 1 0 0 1 10 False), (2, example_body 2 3 0 2 10 False),
          (3, example_body 3 1 0 4 10 False), (4, example_body 4 2 0 8 10 False)], 5))
     = Inr [(5, Fin 13), (6, Fin 10)]
   \<and> map_sum id (\<lambda>st. map (map b_id) (ps_collisions st))
     (forcePass [(1, example_body 1 0 0 1 20 False), (2, example_body 2 2 0 2 20 False),
                 (3, example_body 3 1 0 4 20 False)])
     = Inr [[1, 2, 3, 3]]"
  by (simp add: run_defs)

text \<open>
  C4, as the code has it: dividing a vector by the scalar zero writes \<open>Div by 0\<close> to the
  error console and returns the componentwise quotients, none of which is finite. The call
  does not fail.
\<close>

theorem div_by_zero_logs_and_returns:
  "div_vec v (Fin 0) = ([''Div by 0''], map (\<lambda>c. jdiv c (Fin 0)) v)
   \<and> NDimVector_div v (Fin 0) = map (\<lambda>c. jdiv c (Fin 0)) v
   \<and> (\<forall>c \<in> set (NDimVector_div v (Fin 0)). \<not> is_fin c)"
  by (simp add: div_vec_def NDimVector_div_def strict_eq_def jdiv_zero_not_fin)

theorem div_by_zero_logs_and_returns_witness:
  "div_vec [Fin 2, Fin (- 3)] (Fin 0) = ([''Div by 0''], [PInf, NInf])
   \<and> list_all (\<lambda>c. \<not> is_fin c) (NDimVector_div [Fin 2, Fin (- 3)] (Fin 0))"
  using div_by_zero_logs_and_returns[of "[Fin 2, Fin (- 3)]"] by (simp add: list_all_iff)

text \<open>
  C4 as stated fails: the specified contract gives \<open>DivideByZero\<close> for \<open>(1, 0) / 0\<close>,
  the code returns the vector \<open>(Infinity, NaN)\<close>.
\<close>

theorem div_by_zero_counterexample:
  "div_spec [Fin 1, Fin 0] (Fin 0) = Inl DivideByZero
   \<and> div_vec [Fin 1, Fin 0] (Fin 0) = ([''Div by 0''], [PInf, NaN])
   \<and> NDimVector_div [Fin 1, Fin 0] (Fin 0) = [PInf, NaN]"
  by (simp add: div_spec_def div_vec_def NDimVector_div_def strict_eq_def)

text \<open>
  C5. A pair is flagged as colliding (its ids are pushed to \<open>collidedIds\<close> and both bodies
  are in a common group afterwards) exactly when the scaled distance, the magnitude of
  \<open>pos(b2) - pos(b1)\<close> times 6500, is strictly less than \<open>(r(b1) + r(b2)) * 400\<close>. A pair
  whose scaled distance equals the threshold is not flagged: nothing is recorded and the
  bodies get the acceleration update.
\<close>

theorem collision_test_strict:
  "scaledDistance b1 b2 = jmul (magnitude (sub (b_pos b2) (b_pos b1))) (Fin 6500)
   \<and> collisionThreshold b1 b2 = jmul (jadd (b_r b1) (b_r b2)) (Fin 400)
   \<and> ((ps_collidedIds (evalPair k b1 k2 b2 st) = ps_collidedIds st @ [b_id b1, b_id b2]
        \<and> (\<exists>g \<in> set (ps_collisions (evalPair k b1 k2 b2 st)).
              includes_body g b1 \<and> includes_body g b2))
       = jlt (scaledDistance b1 b2) (collisionThreshold b1 b2))
   \<and> (scaledDistance b1 b2 = collisionThreshold b1 b2 \<longrightarrow>
        evalPair k b1 k2 b2 st =
          st\<lparr>ps_bodies :=
               Map_set k2
                 (if b_isStatic b2 then b2
                  else b2\<lparr>b_acc := NDimVector_sub (b_acc b2)
                                      (NDimVector_mul (accFactor b1 b2) (b_m b1))\<rparr>)
                 (Map_set k
                    (if b_isStatic b1 then b1
                     else b1\<lparr>b_acc := NDimVector_add (b_acc b1)
                                         (NDimVector_mul (accFactor b1 b2) (b_m b2))\<rparr>)
                    (ps_bodies st))\<rparr>)"
proof (intro conjI impI)
  show "scaledDistance b1 b2 = jmul (magnitude (sub (b_pos b2) (b_pos b1))) (Fin 6500)"
    by (simp add: scaledDistance_def NDimVector_defs DISTANCE_SCALE_def)
  show "collisionThreshold b1 b2 = jmul (jadd (b_r b1) (b_r b2)) (Fin 400)"
    by (simp add: collisionThreshold_def)
  show "(ps_collidedIds (evalPair k b1 k2 b2 st) = ps_collidedIds st @ [b_id b1, b_id b2]
        \<and> (\<exists>g \<in> set (ps_collisions (evalPair k b1 k2 b2 st)).
              includes_body g b1 \<and> includes_body g b2))
       = jlt (scaledDistance b1 b2) (collisionThreshold b1 b2)"
    using evalPair_colliding_group[of b1 b2 k k2 st]
    by (auto simp: evalPair_collidedIds)
  assume "scaledDistance b1 b2 = collisionThreshold b1 b2"
  then have "\<not> jlt (scaledDistance b1 b2) (collisionThreshold b1 b2)"
    by (simp add: jlt_irrefl)
  then show "evalPair k b1 k2 b2 st =
          st\<lparr>ps_bodies :=
               Map_set k2
                 (if b_isStatic b2 then b2
                  else b2\<lparr>b_acc := NDimVector_sub (b_acc b2)
                                      (NDimVector_mul (accFactor b1 b2) (b_m b1))\<rparr>)
                 (Map_set k
                    (if b_isStatic b1 then b1
                     else b1\<lparr>b_acc := NDimVector_add (b_acc b1)
                                         (NDimVector_mul (accFactor b1 b2) (b_m b2))\<rparr>)
                    (ps_bodies st))\<rparr>"
    by (rule evalPair_not_colliding)
qed

text \<open>
  The bodies at \<open>(0, 0)\<close> and \<open>(4, 0)\<close> with radii 30 and 35 are exactly at the threshold
  (\<open>4 * 6500 = 65 * 400\<close>): nothing is flagged and the first body is accelerated.
\<close>

theorem collision_test_strict_witness:
  "scaledDistance (example_body 1 0 0 1 30 False) (example_body 2 4 0 1 35 False)
     = collisionThreshold (example_body 1 0 0 1 30 False) (example_body 2 4 0 1 35 False)
   \<and> ps_collidedIds (evalPair 1 (example_body 1 0 0 1 30 False) 2 (example_body 2 4 0 1 35 False)
        (example_pass [(1, example_body 1 0 0 1 30 False), (2, example_body 2 4 0 1 35 False)]))
     = []
   \<and> map_option b_acc (Map_get (ps_bodies (evalPair 1 (example_body 1 0 0 1 30 False) 2
        (example_body 2 4 0 1 35 False)
        (example_pass [(1, example_body 1 0 0 1 30 False), (2, example_body 2 4 0 1 35 False)]))) 1)
     = Some [Fin (1 / 104000), Fin 0]"
proof -
  let ?b1 = "example_body 1 0 0 1 30 False" and ?b2 = "example_body 2 4 0 1 35 False"
  let ?st = "example_pass [(1, ?b1), (2, ?b2)]"
  have h: "scaledDistance ?b1 ?b2 = collisionThreshold ?b1 ?b2"
    by (simp add: example_body_def pair_defs NDimVector_defs vector_defs)
  have f: "accFactor ?b1 ?b2 = [Fin (1 / 104000), Fin 0]"
    by (simp add: example_body_def pair_defs NDimVector_defs vector_defs)
  from collision_test_strict[of ?b1 ?b2 1 2 ?st] h
  have e: "evalPair 1 ?b1 2 ?b2 ?st =
          ?st\<lparr>ps_bodies :=
               Map_set 2
                 (if b_isStatic ?b2 then ?b2
                  else ?b2\<lparr>b_acc := NDimVector_sub (b_acc ?b2)
                                      (NDimVector_mul (accFactor ?b1 ?b2) (b_m ?b1))\<rparr>)
                 (Map_set 1
                    (if b_isStatic ?b1 then ?b1
                     else ?b1\<lparr>b_acc := NDimVector_add (b_acc ?b1)
                                         (NDimVector_mul (accFactor ?b1 ?b2) (b_m ?b2))\<rparr>)
                    (ps_bodies ?st))\<rparr>"
    by blast
  have ids: "ps_collidedIds (evalPair 1 ?b1 2 ?b2 ?st) = []"
    unfolding e by (simp add: example_pass_def)
  have acc: "map_option b_acc (Map_get (ps_bodies (evalPair 1 ?b1 2 ?b2 ?st)) 1)
               = Some [Fin (1 / 104000), Fin 0]"
    unfolding e f
    by (simp add: example_pass_def example_body_def Map_get_set NDimVector_defs vector_defs)
  from h ids acc show ?thesis by blast
qed

text \<open>
  C6. After \<open>handleCollisions\<close>, when the ids of all members were handed out before the
  counter reached \<open>next_id\<close>: no member's id is live, each group has its product in the
  map under a fresh id that differs from the id of every member, and the live ids are the
  earlier ones without the members' plus one new id for each group.
\<close>

theorem handleCollisions_live_set:
  assumes "\<forall>c \<in> set colls. \<forall>b \<in> set c. b_id b < next_id"
    and "distinct (Map_keys bodies)"
  shows "(\<forall>c \<in> set colls. \<forall>b \<in> set c.
            Map_get (fst (handleCollisions cls colls (bodies, next_id))) (b_id b) = None)
       \<and> (\<forall>i < length colls. \<exists>nb.
            Map_get (fst (handleCollisions cls colls (bodies, next_id))) (next_id + i) = Some nb
            \<and> b_id nb = next_id + i
            \<and> (\<forall>b \<in> set (colls ! i). b_id nb \<noteq> b_id b))
       \<and> set (Map_keys (fst (handleCollisions cls colls (bodies, next_id))))
            = (set (Map_keys bodies) - (\<Union>c \<in> set colls. b_id ` set c))
              \<union> {next_id ..< next_id + length colls}
       \<and> distinct (Map_keys (fst (handleCollisions cls colls (bodies, next_id))))"
proof -
  let ?bodies' = "fst (handleCollisions cls colls (bodies, next_id))"
  note get = handleCollisions_get[OF assms(1), of cls bodies]
  have gone: "\<forall>c \<in> set colls. \<forall>b \<in> set c. Map_get ?bodies' (b_id b) = None"
  proof (intro ballI)
    fix c b assume cb: "c \<in> set colls" "b \<in> set c"
    with assms(1) have "b_id b < next_id" by blast
    moreover from cb have "b_id b \<in> (\<Union>c \<in> set colls. b_id ` set c)" by blast
    ultimately show "Map_get ?bodies' (b_id b) = None" by (simp add: get)
  qed
  have new: "\<forall>i < length colls. \<exists>nb.
            Map_get ?bodies' (next_id + i) = Some nb \<and> b_id nb = next_id + i
            \<and> (\<forall>b \<in> set (colls ! i). b_id nb \<noteq> b_id b)"
  proof (intro allI impI)
    fix i assume i: "i < length colls"
    have "\<forall>b \<in> set (colls ! i). b_id b < next_id"
      using assms(1) i by (meson nth_mem)
    then have "\<forall>b \<in> set (colls ! i). next_id + i \<noteq> b_id b" by auto
    with i show "\<exists>nb. Map_get ?bodies' (next_id + i) = Some nb \<and> b_id nb = next_id + i
            \<and> (\<forall>b \<in> set (colls ! i). b_id nb \<noteq> b_id b)"
      by (simp add: get newBody_id)
  qed
  have keys: "set (Map_keys ?bodies')
            = (set (Map_keys bodies) - (\<Union>c \<in> set colls. b_id ` set c))
              \<union> {next_id ..< next_id + length colls}"
  proof (rule set_eqI)
    fix j
    show "j \<in> set (Map_keys ?bodies') \<longleftrightarrow>
          j \<in> (set (Map_keys bodies) - (\<Union>c \<in> set colls. b_id ` set c))
              \<union> {next_id ..< next_id + length colls}"
      by (simp add: Map_keys_get get, blast)
  qed
  show ?thesis
    by (intro conjI gone new keys handleCollisions_distinct[OF assms(2)])
qed

text \<open>
  Two bodies with the ids 1 and 2 merge while the counter stands at 3 and a third body
  with the id 0 is live: afterwards the ids 1 and 2 are gone and the live ids are 0 and 3.
\<close>

theorem handleCollisions_live_set_witness:
  "list_all (list_all (\<lambda>b. b_id b < 3))
     [[example_body 1 0 0 1 10 False, example_body 2 1 0 1 10 False]]
   \<and> distinct (Map_keys [(0, example_body 0 50 50 1 10 False),
        (1, example_body 1 0 0 1 10 False), (2, example_body 2 1 0 1 10 False)])
   \<and> Map_get (fst (handleCollisions example_class
        [[example_body 1 0 0 1 10 False, example_body 2 1 0 1 10 False]]
        ([(0, example_body 0 50 50 1 10 False),
          (1, example_body 1 0 0 1 10 False), (2, example_body 2 1 0 1 10 False)], 3))) 1 = None
   \<and> set (Map_keys (fst (handleCollisions example_class
        [[example_body 1 0 0 1 10 False, example_body 2 1 0 1 10 False]]
        ([(0, example_body 0 50 50 1 10 False),
          (1, example_body 1 0 0 1 10 False), (2, example_body 2 1 0 1 10 False)], 3)))) = {0, 3}"
proof -
  let ?b0 = "example_body 0 50 50 1 10 False"
  let ?b1 = "example_body 1 0 0 1 10 False" and ?b2 = "example_body 2 1 0 1 10 False"
  let ?colls = "[[?b1, ?b2]]" and ?bodies = "[(0, ?b0), (1, ?b1), (2, ?b2)]"
  have ids: "\<forall>c \<in> set ?colls. \<forall>b \<in> set c. b_id b < 3"
    by (simp add: example_body_def)
  have dist: "distinct (Map_keys ?bodies)"
    by (simp add: Map_keys_def)
  note live = handleCollisions_live_set[OF ids dist, of example_class]
  from live have gone: "Map_get (fst (handleCollisions example_class ?colls (?bodies, 3))) (b_id ?b1) = None"
    by simp
  have id1: "b_id ?b1 = 1" by (simp add: example_body_def)
  from live have "set (Map_keys (fst (handleCollisions example_class ?colls (?bodies, 3))))
            = (set (Map_keys ?bodies) - (\<Union>c \<in> set ?colls. b_id ` set c)) \<union> {3 ..< 3 + length ?colls}"
    by blast
  also have "\<dots> = {0, 3}"
    by (auto simp: Map_keys_def example_body_def)
  finally have keys: "set (Map_keys (fst (handleCollisions example_class ?colls (?bodies, 3)))) = {0, 3}" .
  have "list_all (list_all (\<lambda>b. b_id b < 3)) ?colls"
    using ids by (simp add: list_all_iff)
  with dist gone[unfolded id1] keys show ?thesis by blast
qed

text \<open>
  C7. The claim: the product of a group with no static member lies at the mass-weighted
  centroid of the members. \<open>centerOfMass\<close> sums over the entries of the group's array,
  and the force pass can enter a body twice. Three movable bodies of mass 1, 2 and 4 at
  \<open>(0, 0)\<close>, \<open>(2, 0)\<close> and \<open>(1, 0)\<close> with radius 20 all touch one another; the pass
  builds the group \<open>[1, 2, 3, 3]\<close> and the product is placed at \<open>(12/11, 0)\<close>, while
  the centroid of the three members is \<open>(8/7, 0)\<close>.
\<close>

theorem merge_centroid_counts_entries:
  "map_sum id (\<lambda>w. map (\<lambda>(k, b). (k, b_pos b)) (fst w))
     (updateAcceleration2 example_class
        ([(1, example_body 1 0 0 1 20 False), (2, example_body 2 2 0 2 20 False),
          (3, example_body 3 1 0 4 20 False)], 4))
     = Inr [(4, [Fin (12 / 11), Fin 0])]
   \<and> NDimVector_div
        (vec_sum (map (\<lambda>b. NDimVector_mul (b_pos b) (b_m b))
           [example_body 1 0 0 1 20 False, example_body 2 2 0 2 20 False,
            example_body 3 1 0 4 20 False]))
        (mass_sum [example_body 1 0 0 1 20 False, example_body 2 2 0 2 20 False,
            example_body 3 1 0 4 20 False])
     = [Fin (8 / 7), Fin 0]"
  by (simp add: run_defs)




text \<open>
  C9, as the code has it: \<open>addBody\<close> stores the body under its id and returns; a body
  that was live under the same id is replaced without notice. Every id keeps at most one
  live body, and the bodies under all other ids stay as they were.
\<close>

theorem addBody_replaces:
  assumes "distinct (Map_keys bodies)"
  shows "distinct (Map_keys (addBody b bodies))
       \<and> Map_get (addBody b bodies) (b_id b) = Some b
       \<and> (\<forall>k. k \<noteq> b_id b \<longrightarrow> Map_get (addBody b bodies) k = Map_get bodies k)
       \<and> set (Map_keys (addBody b bodies)) = insert (b_id b) (set (Map_keys bodies))"
  using assms
  by (simp add: addBody_def Map_keys_def Map_get_def Map_set_def distinct_update update_conv'
        dom_update flip: dom_map_of_conv_image_fst)

theorem addBody_replaces_witness:
  "distinct (Map_keys [(1, example_body 1 0 0 1 1 False)])
   \<and> distinct (Map_keys (addBody (example_body 1 5 5 2 1 False) [(1, example_body 1 0 0 1 1 False)]))
   \<and> Map_get (addBody (example_body 1 5 5 2 1 False) [(1, example_body 1 0 0 1 1 False)]) 1
       = Some (example_body 1 5 5 2 1 False)"
proof -
  have d: "distinct (Map_keys [(1, example_body 1 0 0 1 1 False)])"
    by (simp add: Map_keys_def)
  have i: "b_id (example_body 1 5 5 2 1 False) = 1"
    by (simp add: example_body_def)
  from addBody_replaces[OF d, of "example_body 1 5 5 2 1 False"] d show ?thesis
    unfolding i by blast
qed

text \<open>
  C9 as stated fails: the specified contract rejects a second body with the id 1, the
  code returns the map with the first body replaced.
\<close>

theorem addBody_duplicate_counterexample:
  "addBody_spec (example_body 1 5 5 2 1 False) [(1, example_body 1 0 0 1 1 False)]
     = Inl DuplicateId
   \<and> addBody (example_body 1 5 5 2 1 False) [(1, example_body 1 0 0 1 1 False)]
       = [(1, example_body 1 5 5 2 1 False)]"
  by (simp add: addBody_spec_def addBody_def Map_keys_def Map_set_def example_body_def)

text \<open>
  C10. When the pair found under the keys \<open>k\<close> and \<open>k2\<close> passes the collision test, the
  iteration returns with the map of bodies as it was: the accelerations of both bodies are
  unchanged.
\<close>

theorem colliding_pair_keeps_acc:
  assumes "Map_get (ps_bodies st) k = Some b1"
    and "Map_get (ps_bodies st) k2 = Some b2"
    and "jlt (scaledDistance b1 b2) (collisionThreshold b1 b2)"
  shows "pairStep k k2 st = Inr (evalPair k b1 k2 b2 st)
       \<and> ps_bodies (evalPair k b1 k2 b2 st) = ps_bodies st
       \<and> map_option b_acc (Map_get (ps_bodies (evalPair k b1 k2 b2 st)) k) = Some (b_acc b1)
       \<and> map_option b_acc (Map_get (ps_bodies (evalPair k b1 k2 b2 st)) k2) = Some (b_acc b2)"
proof -
  have bodies: "ps_bodies (evalPair k b1 k2 b2 st) = ps_bodies st"
    using assms(3) by (simp add: evalPair_def Let_def split: option.split)
  have "pairStep k k2 st = Inr (evalPair k b1 k2 b2 st)"
    using assms(1,2) by (simp add: pairStep_def)
  with bodies assms(1,2) show ?thesis by simp
qed

theorem colliding_pair_keeps_acc_witness:
  "Map_get (ps_bodies (example_pass
       [(1, example_body 1 0 0 1 10 False), (2, example_body 2 1 0 1 10 False)])) 1
      = Some (example_body 1 0 0 1 10 False)
   \<and> Map_get (ps_bodies (example_pass
       [(1, example_body 1 0 0 1 10 False), (2, example_body 2 1 0 1 10 False)])) 2
      = Some (example_body 2 1 0 1 10 False)
   \<and> jlt (scaledDistance (example_body 1 0 0 1 10 False) (example_body 2 1 0 1 10 False))
          (collisionThreshold (example_body 1 0 0 1 10 False) (example_body 2 1 0 1 10 False))
   \<and> map_option b_acc (Map_get (ps_bodies (evalPair 1 (example_body 1 0 0 1 10 False) 2
         (example_body 2 1 0 1 10 False)
         (example_pass [(1, example_body 1 0 0 1 10 False), (2, example_body 2 1 0 1 10 False)]))) 1)
      = Some [Fin 0, Fin 0]"
proof -
  let ?b1 = "example_body 1 0 0 1 10 False" and ?b2 = "example_body 2 1 0 1 10 False"
  let ?st = "example_pass [(1, ?b1), (2, ?b2)]"
  have h1: "Map_get (ps_bodies ?st) 1 = Some ?b1"
    by (simp add: example_pass_def Map_get_def)
  have h2: "Map_get (ps_bodies ?st) 2 = Some ?b2"
    by (simp add: example_pass_def Map_get_def)
  have h3: "jlt (scaledDistance ?b1 ?b2) (collisionThreshold ?b1 ?b2)"
    by (simp add: example_body_def pair_defs NDimVector_defs vector_defs)
  have c: "map_option b_acc (Map_get (ps_bodies (evalPair 1 ?b1 2 ?b2 ?st)) 1) = Some (b_acc ?b1)"
    using colliding_pair_keeps_acc[OF h1 h2 h3] by blast
  have "b_acc ?b1 = [Fin 0, Fin 0]" by (simp add: example_body_def)
  with h1 h2 h3 c show ?thesis by simp
qed

end
